theory Spec2Isabelle
  imports Complex_Main "HOL-Library.Multiset"
begin

section \<open>Formulation actions of the feed formulator\<close>

text \<open>
  The server actions on formulations (\<^verbatim>\<open>getFormulationById\<close>, \<^verbatim>\<open>createFormulation\<close>,
  \<^verbatim>\<open>updateFormulation\<close>, \<^verbatim>\<open>deleteFormulation\<close>, \<^verbatim>\<open>toggleFormulationStatus\<close>,
  \<^verbatim>\<open>duplicateFormulation\<close>), the helpers of \<^verbatim>\<open>lib/actions/common.ts\<close> they call, and the
  tables and insert schemas of \<^verbatim>\<open>db/schema\<close> they work on.

  Conventions of the embedding.
  \<^item> A JavaScript number is an exact rational; rounding of binary floating point is not
    modelled. The one place where the code can leave the finite numbers is the division
    by \<^verbatim>\<open>totalCost\<close>, whose quotient is a \<open>jsnum\<close> with the IEEE values of a division by zero.
  \<^item> A decimal column holds the number the code handed to the insert; precision and scale
    of the column are not modelled.
  \<^item> The database is a record of tables, every action takes it and returns it. A
    \<^verbatim>\<open>db.transaction\<close> callback that throws rolls back: the action goes on with the
    database it started from.
  \<^item> A thrown value is an \<open>exn\<close>; every action catches it with \<open>handleDatabaseError\<close>.
  \<^item> Of the forty-odd columns of \<^verbatim>\<open>formulations\<close> the model keeps every column without a
    default that the insert schema requires, and of the others those that an action reads
    or writes (\<^verbatim>\<open>description\<close>, \<^verbatim>\<open>status\<close>, \<^verbatim>\<open>mainIngredients\<close>, \<^verbatim>\<open>updatedAt\<close>).
\<close>

subsection \<open>Numbers\<close>

datatype jsnum = Num rat | PosInfinity | NegInfinity | NaN

definition js_div :: "rat \<Rightarrow> rat \<Rightarrow> jsnum" where
  \<comment> \<open>\<^verbatim>\<open>a / b\<close> on finite numbers\<close>
  "js_div a b =
     (if b \<noteq> 0 then Num (a / b)
      else if a = 0 then NaN
      else if 0 < a then PosInfinity else NegInfinity)"

fun js_times100 :: "jsnum \<Rightarrow> jsnum" where
  \<comment> \<open>\<^verbatim>\<open>x * 100\<close>\<close>
  "js_times100 (Num r) = Num (r * 100)"
| "js_times100 PosInfinity = PosInfinity"
| "js_times100 NegInfinity = NegInfinity"
| "js_times100 NaN = NaN"

definition toFixed1 :: "rat \<Rightarrow> rat" where
  \<comment> \<open>the number that \<^verbatim>\<open>x.toFixed(1)\<close> prints: nearest tenth, a tie goes away from zero\<close>
  "toFixed1 x = (if x < 0 then - (of_int (round (- x * 10)) / 10) else of_int (round (x * 10)) / 10)"

fun js_insert :: "('a \<Rightarrow> 'a \<Rightarrow> rat) \<Rightarrow> 'a \<Rightarrow> 'a list \<Rightarrow> 'a list" where
  "js_insert cmp x [] = [x]"
| "js_insert cmp x (y # ys) = (if cmp x y \<le> 0 then x # y # ys else y # js_insert cmp x ys)"

definition js_sort :: "('a \<Rightarrow> 'a \<Rightarrow> rat) \<Rightarrow> 'a list \<Rightarrow> 'a list" where
  \<comment> \<open>\<^verbatim>\<open>Array.prototype.sort(cmp)\<close>: a stable sort (ECMAScript 2019), here by insertion from the right\<close>
  "js_sort cmp xs = foldr (js_insert cmp) xs []"

subsection \<open>Results and thrown values (\<^verbatim>\<open>lib/actions/common.ts\<close>)\<close>

datatype message =
    Text string
  | CurrentSum rat
    \<comment> \<open>\<^verbatim>\<open>Ingredient percentages must sum to 100%. Current sum: ${totalPercentage.toFixed(1)}%\<close>\<close>

datatype 'a action_result =
    Success 'a "string option"
  | Failure string "message option"
  | Invalid "string list"
    \<comment> \<open>\<^verbatim>\<open>{ success: false, error: 'Validation failed', validationErrors }\<close>, the fields with an issue\<close>

fun is_success :: "'a action_result \<Rightarrow> bool" where
  "is_success (Success _ _) = True"
| "is_success _ = False"

definition createSuccessResponse :: "'a \<Rightarrow> string option \<Rightarrow> 'a action_result" where
  "createSuccessResponse data msg = Success data msg"

definition createErrorResponse :: "string \<Rightarrow> message option \<Rightarrow> 'a action_result" where
  "createErrorResponse err msg = Failure err msg"

datatype exn =
    ZodError
    \<comment> \<open>\<^verbatim>\<open>idSchema.parse\<close> on a string that is not a UUID\<close>
  | PgError string
    \<comment> \<open>a database error with its SQLSTATE in \<^verbatim>\<open>error.code\<close>\<close>
  | JsError message
    \<comment> \<open>\<^verbatim>\<open>new Error(message)\<close>, or a TypeError of the runtime; no \<^verbatim>\<open>code\<close>\<close>

definition handleDatabaseError :: "exn \<Rightarrow> 'a action_result" where
  "handleDatabaseError error =
     (case error of
        PgError code \<Rightarrow>
          (if code = ''23505'' then Failure ''Duplicate entry'' (Some (Text ''This record already exists''))
           else if code = ''23503'' then
             Failure ''Foreign key constraint violation'' (Some (Text ''Referenced record does not exist''))
           else if code = ''23502'' then
             Failure ''Missing required field'' (Some (Text ''Please fill in all required fields''))
           else Failure ''Database operation failed''
                  (Some (Text ''An unexpected error occurred. Please try again.'')))
      | _ \<Rightarrow> Failure ''Database operation failed''
                (Some (Text ''An unexpected error occurred. Please try again.'')))"

datatype ident = Uuid nat | NotUuid
  \<comment> \<open>the \<^verbatim>\<open>id: string\<close> argument of an action: a well-formed UUID, or any other string\<close>

definition idSchema_parse :: "ident \<Rightarrow> exn + nat" where
  "idSchema_parse anId = (case anId of Uuid i \<Rightarrow> Inr i | NotUuid \<Rightarrow> Inl ZodError)"

subsection \<open>Tables (\<^verbatim>\<open>db/schema\<close>)\<close>

record animal =
  a_displayName :: string
  a_species :: string

record ingredient =
  i_name :: string
  i_category :: "string option"
  i_costPerUnit :: rat
  i_unit :: string

record formulation =
  f_name :: string
  f_description :: "string option"
  f_formulationType :: string
  f_status :: string
  f_animalId :: nat
  f_productionStageId :: nat
  f_formulationQuantity :: rat
  f_optimizationObjective :: string
  f_totalCost :: rat
  f_costPerUnit :: rat
  f_nutritionalAnalysis :: string
  f_meetsRequirements :: bool
  f_ingredientCount :: int
  f_mainIngredients :: "(nat \<times> rat) list option"
  f_createdBy :: string
  f_updatedAt :: nat

record formulation_ingredient =
  fi_formulationId :: nat
  fi_ingredientId :: nat
  fi_quantity :: rat
  fi_percentage :: rat
  fi_proportion :: rat
  fi_ingredientCost :: rat
  fi_costPercentage :: jsnum
  fi_ingredientRole :: string
  fi_isEssential :: bool
  fi_sequenceOrder :: nat
  fi_displayOrder :: nat

record db =
  animals :: "nat \<rightharpoonup> animal"
  productionStages :: "nat \<rightharpoonup> string"
  ingredients :: "nat \<rightharpoonup> ingredient"
  formulations :: "nat \<rightharpoonup> formulation"
  formulationIngredients :: "formulation_ingredient list"

subsection \<open>Payloads and their validation\<close>

record ingredient_entry =
  e_ingredientId :: nat
  e_quantity :: rat
  e_percentage :: rat
  e_ingredientRole :: string
  e_isEssential :: bool

text \<open>
  The \<^verbatim>\<open>data: any\<close> of create and update: every key may be absent. Identifiers inside the
  payload are well-formed UUIDs, \<^verbatim>\<open>isEssential\<close> has its default filled in.
\<close>

record formulation_data =
  d_name :: "string option"
  d_description :: "string option"
  d_formulationType :: "string option"
  d_status :: "string option"
  d_animalId :: "nat option"
  d_productionStageId :: "nat option"
  d_formulationQuantity :: "rat option"
  d_optimizationObjective :: "string option"
  d_totalCost :: "rat option"
  d_costPerUnit :: "rat option"
  d_nutritionalAnalysis :: "string option"
  d_meetsRequirements :: "bool option"
  d_ingredientCount :: "int option"
  d_mainIngredients :: "(nat \<times> rat) list option"
  d_createdBy :: "string option"
  d_ingredients :: "ingredient_entry list option"

definition issue :: "string \<Rightarrow> bool \<Rightarrow> ('a \<Rightarrow> bool) \<Rightarrow> 'a option \<Rightarrow> string list" where
  \<comment> \<open>one key of a zod object: absent and required, or present and refused, is an issue at that key\<close>
  "issue field required ok v =
     (case v of None \<Rightarrow> (if required then [field] else []) | Some x \<Rightarrow> (if ok x then [] else [field]))"

definition entry_ok :: "ingredient_entry \<Rightarrow> bool" where
  "entry_ok ing \<longleftrightarrow> 0 < e_quantity ing \<and> 0 \<le> e_percentage ing \<and> e_percentage ing \<le> 100"

definition schema_issues :: "bool \<Rightarrow> formulation_data \<Rightarrow> string list" where
  \<comment> \<open>\<^verbatim>\<open>createFormulationSchema\<close> (\<open>required = True\<close>) and \<^verbatim>\<open>createFormulationSchema.partial()\<close>\<close>
  "schema_issues required d =
     issue ''name'' required (\<lambda>s. 1 \<le> length s \<and> length s \<le> 255) (d_name d)
     @ issue ''description'' False (\<lambda>_. True) (d_description d)
     @ issue ''formulationType'' required
         (\<lambda>s. s \<in> set [''Optimal'', ''Least Cost'', ''Custom'', ''Template'']) (d_formulationType d)
     @ issue ''status'' False
         (\<lambda>s. s \<in> set [''draft'', ''active'', ''archived'', ''template'']) (d_status d)
     @ issue ''animalId'' required (\<lambda>_. True) (d_animalId d)
     @ issue ''productionStageId'' required (\<lambda>_. True) (d_productionStageId d)
     @ issue ''formulationQuantity'' required (\<lambda>q. 0 < q) (d_formulationQuantity d)
     @ issue ''optimizationObjective'' required
         (\<lambda>s. s \<in> set [''cost'', ''quality'', ''balanced'', ''custom'']) (d_optimizationObjective d)
     @ issue ''totalCost'' required (\<lambda>c. 0 \<le> c) (d_totalCost d)
     @ issue ''costPerUnit'' required (\<lambda>c. 0 \<le> c) (d_costPerUnit d)
     @ issue ''nutritionalAnalysis'' required (\<lambda>_. True) (d_nutritionalAnalysis d)
     @ issue ''meetsRequirements'' required (\<lambda>_. True) (d_meetsRequirements d)
     @ issue ''ingredientCount'' required (\<lambda>n. 0 \<le> n) (d_ingredientCount d)
     @ issue ''mainIngredients'' False (\<lambda>_. True) (d_mainIngredients d)
     @ issue ''createdBy'' required (\<lambda>s. 1 \<le> length s \<and> length s \<le> 255) (d_createdBy d)
     @ issue ''ingredients'' required (\<lambda>xs. xs \<noteq> [] \<and> list_all entry_ok xs) (d_ingredients d)"

definition validateInput :: "bool \<Rightarrow> formulation_data \<Rightarrow> string list + formulation_data" where
  \<comment> \<open>\<^verbatim>\<open>safeParse\<close>: the issues, or the parsed data. Only the full schema fills in the default
      of \<^verbatim>\<open>status\<close>; under \<^verbatim>\<open>partial()\<close> an absent key stays absent (zod 3).\<close>
  "validateInput required d =
     (if schema_issues required d \<noteq> [] then Inl (schema_issues required d)
      else Inr (if required
                then d\<lparr>d_status := Some (case d_status d of None \<Rightarrow> ''draft'' | Some s \<Rightarrow> s)\<rparr>
                else d))"

subsection \<open>Reading a formulation\<close>

record ingredient_view =
  iv_row :: formulation_ingredient
  iv_ingredientName :: "string option"
  iv_ingredientCategory :: "string option"
  iv_ingredientCostPerUnit :: "rat option"
  iv_ingredientUnit :: "string option"

record formulation_view =
  v_id :: nat
  v_formulation :: formulation
  v_animalName :: "string option"
  v_animalSpecies :: "string option"
  v_stageName :: "string option"
  v_ingredients :: "ingredient_view list"

definition ingredientsOf :: "nat \<Rightarrow> db \<Rightarrow> formulation_ingredient list" where
  \<comment> \<open>\<^verbatim>\<open>where(eq(formulationIngredients.formulationId, id))\<close>\<close>
  "ingredientsOf fid d = filter (\<lambda>r. fi_formulationId r = fid) (formulationIngredients d)"

definition joinIngredient :: "db \<Rightarrow> formulation_ingredient \<Rightarrow> ingredient_view" where
  \<comment> \<open>the left join with \<^verbatim>\<open>ingredients\<close>: the four columns are null when no ingredient matches\<close>
  "joinIngredient d r =
     \<lparr> iv_row = r,
       iv_ingredientName = map_option i_name (ingredients d (fi_ingredientId r)),
       iv_ingredientCategory = Option.bind (ingredients d (fi_ingredientId r)) i_category,
       iv_ingredientCostPerUnit = map_option i_costPerUnit (ingredients d (fi_ingredientId r)),
       iv_ingredientUnit = map_option i_unit (ingredients d (fi_ingredientId r)) \<rparr>"

definition getFormulationById :: "ident \<Rightarrow> db \<Rightarrow> formulation_view action_result \<times> db" where
  \<comment> \<open>\<^verbatim>\<open>orderBy(asc(displayOrder))\<close> leaves rows of equal \<^verbatim>\<open>displayOrder\<close> in any order; the model
      keeps them in table order\<close>
  "getFormulationById anId d =
     (case idSchema_parse anId of
        Inl error \<Rightarrow> (handleDatabaseError error, d)
      | Inr validatedId \<Rightarrow>
          (case formulations d validatedId of
             None \<Rightarrow> (createErrorResponse ''Formulation not found'' None, d)
           | Some f \<Rightarrow>
               (createSuccessResponse
                  \<lparr> v_id = validatedId,
                    v_formulation = f,
                    v_animalName = map_option a_displayName (animals d (f_animalId f)),
                    v_animalSpecies = map_option a_species (animals d (f_animalId f)),
                    v_stageName = productionStages d (f_productionStageId f),
                    v_ingredients =
                      map (joinIngredient d) (sort_key fi_displayOrder (ingredientsOf validatedId d)) \<rparr>
                  None, d)))"

subsection \<open>Writes inside a transaction\<close>

text \<open>
  The constraints are those the tables declare: the primary key of \<^verbatim>\<open>formulations\<close>
  (SQLSTATE 23505), its foreign keys to \<^verbatim>\<open>animals\<close> and \<^verbatim>\<open>production_stages\<close>, the foreign
  keys of \<^verbatim>\<open>formulation_ingredients\<close> to \<^verbatim>\<open>formulations\<close> and \<^verbatim>\<open>ingredients\<close> (23503), and
  the columns that are \<^verbatim>\<open>notNull\<close> without a default (23502). An update checks a
  foreign key only when it changes the column.
\<close>

definition insertFormulation :: "nat \<Rightarrow> formulation \<Rightarrow> db \<Rightarrow> exn + db" where
  \<comment> \<open>\<open>gid\<close> is the \<^verbatim>\<open>defaultRandom()\<close> identifier the database draws for the row\<close>
  "insertFormulation gid row tx =
     (if formulations tx gid \<noteq> None then Inl (PgError ''23505'')
      else if animals tx (f_animalId row) = None \<or> productionStages tx (f_productionStageId row) = None
      then Inl (PgError ''23503'')
      else Inr (tx\<lparr>formulations := (formulations tx)(gid \<mapsto> row)\<rparr>))"

definition updateFormulationRow :: "nat \<Rightarrow> (formulation \<Rightarrow> formulation) \<Rightarrow> db \<Rightarrow> exn + db" where
  \<comment> \<open>\<^verbatim>\<open>tx.update(formulations).set(...).where(eq(formulations.id, fid))\<close>\<close>
  "updateFormulationRow fid upd tx =
     (case formulations tx fid of
        None \<Rightarrow> Inr tx
      | Some f \<Rightarrow>
          (if (f_animalId (upd f) \<noteq> f_animalId f \<and> animals tx (f_animalId (upd f)) = None)
              \<or> (f_productionStageId (upd f) \<noteq> f_productionStageId f
                  \<and> productionStages tx (f_productionStageId (upd f)) = None)
           then Inl (PgError ''23503'')
           else Inr (tx\<lparr>formulations := (formulations tx)(fid \<mapsto> upd f)\<rparr>)))"

definition insertFormulationIngredients :: "formulation_ingredient list \<Rightarrow> db \<Rightarrow> exn + db" where
  "insertFormulationIngredients rows tx =
     (if list_all (\<lambda>r. formulations tx (fi_formulationId r) \<noteq> None
                        \<and> ingredients tx (fi_ingredientId r) \<noteq> None) rows
      then Inr (tx\<lparr>formulationIngredients := formulationIngredients tx @ rows\<rparr>)
      else Inl (PgError ''23503''))"

definition deleteFormulationIngredients :: "nat \<Rightarrow> db \<Rightarrow> db" where
  \<comment> \<open>\<^verbatim>\<open>delete(formulationIngredients).where(eq(formulationIngredients.formulationId, fid))\<close>\<close>
  "deleteFormulationIngredients fid tx =
     tx\<lparr>formulationIngredients := filter (\<lambda>r. fi_formulationId r \<noteq> fid) (formulationIngredients tx)\<rparr>"

subsection \<open>The pieces create and update share\<close>

definition totalPercentage :: "ingredient_entry list \<Rightarrow> rat" where
  \<comment> \<open>\<^verbatim>\<open>ingredientData.reduce((sum, ing) => sum + ing.percentage, 0)\<close>\<close>
  "totalPercentage ingredientData = foldl (\<lambda>acc ing. acc + e_percentage ing) 0 ingredientData"

definition byPercentageDesc :: "ingredient_entry \<Rightarrow> ingredient_entry \<Rightarrow> rat" where
  \<comment> \<open>\<^verbatim>\<open>(a, b) => b.percentage - a.percentage\<close>\<close>
  "byPercentageDesc a b = e_percentage b - e_percentage a"

definition topIngredients :: "ingredient_entry list \<Rightarrow> (nat \<times> rat) list" where
  \<comment> \<open>\<^verbatim>\<open>.slice(0, 5).map(ing => ({ ingredientId, percentage }))\<close> of the sorted array\<close>
  "topIngredients sortedData = map (\<lambda>ing. (e_ingredientId ing, e_percentage ing)) (take 5 sortedData)"

definition ingredientRow :: "db \<Rightarrow> nat \<Rightarrow> rat \<Rightarrow> nat \<times> ingredient_entry \<Rightarrow> formulation_ingredient" where
  \<comment> \<open>the body of the \<^verbatim>\<open>map(async (ing, index) => ...)\<close>; \<open>totalCost\<close> is the parsed denominator.
      A cost of zero and no ingredient at all both make \<^verbatim>\<open>ingredient?.costPerUnit || 0\<close> zero.\<close>
  "ingredientRow tx fid totalCost p =
     (case p of (index, ing) \<Rightarrow>
        (let ingredientCost =
               (case ingredients tx (e_ingredientId ing) of None \<Rightarrow> 0 | Some i \<Rightarrow> i_costPerUnit i)
               * e_quantity ing;
             costPercentage = js_times100 (js_div ingredientCost totalCost)
         in \<lparr> fi_formulationId = fid,
              fi_ingredientId = e_ingredientId ing,
              fi_quantity = e_quantity ing,
              fi_percentage = e_percentage ing,
              fi_proportion = e_percentage ing / 100,
              fi_ingredientCost = ingredientCost,
              fi_costPercentage = costPercentage,
              fi_ingredientRole = e_ingredientRole ing,
              fi_isEssential = e_isEssential ing,
              fi_sequenceOrder = index,
              fi_displayOrder = index \<rparr>))"

subsection \<open>\<^verbatim>\<open>createFormulation\<close>\<close>

record created =
  c_id :: nat
  c_formulation :: formulation
  c_ingredients :: "formulation_ingredient list"

definition newFormulation ::
  "nat \<Rightarrow> formulation_data \<Rightarrow> int \<Rightarrow> (nat \<times> rat) list \<Rightarrow> formulation option" where
  \<comment> \<open>the \<^verbatim>\<open>values({...formulationData, ingredientCount, mainIngredients, nutritionalAnalysis: '{}',
      meetsRequirements: false})\<close>; \<open>None\<close> when a column that is not null has no value\<close>
  "newFormulation now formulationData ingredientCount mainIngredients =
     (case d_name formulationData of None \<Rightarrow> None | Some name \<Rightarrow>
      case d_formulationType formulationData of None \<Rightarrow> None | Some formulationType \<Rightarrow>
      case d_animalId formulationData of None \<Rightarrow> None | Some animalId \<Rightarrow>
      case d_productionStageId formulationData of None \<Rightarrow> None | Some productionStageId \<Rightarrow>
      case d_formulationQuantity formulationData of None \<Rightarrow> None | Some formulationQuantity \<Rightarrow>
      case d_optimizationObjective formulationData of None \<Rightarrow> None | Some optimizationObjective \<Rightarrow>
      case d_totalCost formulationData of None \<Rightarrow> None | Some totalCost \<Rightarrow>
      case d_costPerUnit formulationData of None \<Rightarrow> None | Some costPerUnit \<Rightarrow>
      case d_createdBy formulationData of None \<Rightarrow> None | Some createdBy \<Rightarrow>
        Some \<lparr> f_name = name,
               f_description = d_description formulationData,
               f_formulationType = formulationType,
               f_status = (case d_status formulationData of None \<Rightarrow> ''draft'' | Some s \<Rightarrow> s),
               f_animalId = animalId,
               f_productionStageId = productionStageId,
               f_formulationQuantity = formulationQuantity,
               f_optimizationObjective = optimizationObjective,
               f_totalCost = totalCost,
               f_costPerUnit = costPerUnit,
               f_nutritionalAnalysis = ''{}'',
               f_meetsRequirements = False,
               f_ingredientCount = ingredientCount,
               f_mainIngredients = Some mainIngredients,
               f_createdBy = createdBy,
               f_updatedAt = now \<rparr>)"

definition createTransaction ::
  "nat \<Rightarrow> nat \<Rightarrow> formulation_data \<Rightarrow> ingredient_entry list \<Rightarrow> db \<Rightarrow> exn + created \<times> db" where
  \<comment> \<open>\<^verbatim>\<open>ingredientData.sort(...)\<close> inside the \<^verbatim>\<open>values\<close> sorts the array in place, so the
      \<^verbatim>\<open>ingredientData.map\<close> that follows runs over the sorted array. The denominator
      \<^verbatim>\<open>parseFloat(formulationData.totalCost.toString())\<close> is the total cost just inserted.\<close>
  "createTransaction gid now formulationData ingredientData tx =
     (let sortedData = js_sort byPercentageDesc ingredientData in
      case newFormulation now formulationData (int (length ingredientData)) (topIngredients sortedData) of
        None \<Rightarrow> Inl (PgError ''23502'')
      | Some newRow \<Rightarrow>
          (case insertFormulation gid newRow tx of
             Inl error \<Rightarrow> Inl error
           | Inr tx1 \<Rightarrow>
               (let formulationIngredientsWithCost =
                      map (ingredientRow tx1 gid (f_totalCost newRow)) (enumerate 0 sortedData)
                in case insertFormulationIngredients formulationIngredientsWithCost tx1 of
                     Inl error \<Rightarrow> Inl error
                   | Inr tx2 \<Rightarrow>
                       Inr (\<lparr> c_id = gid, c_formulation = newRow,
                              c_ingredients = formulationIngredientsWithCost \<rparr>, tx2))))"

definition createFormulation ::
  "nat \<Rightarrow> nat \<Rightarrow> formulation_data \<Rightarrow> db \<Rightarrow> created action_result \<times> db" where
  "createFormulation gid now data d =
     (case validateInput True data of
        Inl errors \<Rightarrow> (Invalid errors, d)
      | Inr validated \<Rightarrow>
          (case d_ingredients validated of
             None \<Rightarrow> (handleDatabaseError (JsError (Text ''TypeError'')), d)
           | Some ingredientData \<Rightarrow>
               (if \<bar>totalPercentage ingredientData - 100\<bar> > 0.1
                then (createErrorResponse ''Invalid ingredient percentages''
                        (Some (CurrentSum (toFixed1 (totalPercentage ingredientData)))), d)
                else
                  (case createTransaction gid now (validated\<lparr>d_ingredients := None\<rparr>) ingredientData d of
                     Inl error \<Rightarrow> (handleDatabaseError error, d)
                   | Inr (result, d') \<Rightarrow>
                       (createSuccessResponse result (Some ''Formulation created successfully''), d')))))"

subsection \<open>\<^verbatim>\<open>updateFormulation\<close>\<close>

definition hasKeys :: "formulation_data \<Rightarrow> bool" where
  \<comment> \<open>\<^verbatim>\<open>Object.keys(formulationData).length > 0\<close>\<close>
  "hasKeys fd \<longleftrightarrow>
     d_name fd \<noteq> None \<or> d_description fd \<noteq> None \<or> d_formulationType fd \<noteq> None
     \<or> d_status fd \<noteq> None \<or> d_animalId fd \<noteq> None \<or> d_productionStageId fd \<noteq> None
     \<or> d_formulationQuantity fd \<noteq> None \<or> d_optimizationObjective fd \<noteq> None
     \<or> d_totalCost fd \<noteq> None \<or> d_costPerUnit fd \<noteq> None \<or> d_nutritionalAnalysis fd \<noteq> None
     \<or> d_meetsRequirements fd \<noteq> None \<or> d_ingredientCount fd \<noteq> None
     \<or> d_mainIngredients fd \<noteq> None \<or> d_createdBy fd \<noteq> None"

definition orKeep :: "'a option \<Rightarrow> 'a \<Rightarrow> 'a" where
  "orKeep v old = (case v of None \<Rightarrow> old | Some x \<Rightarrow> x)"

definition setFormulationData :: "formulation_data \<Rightarrow> nat \<Rightarrow> formulation \<Rightarrow> formulation" where
  \<comment> \<open>\<^verbatim>\<open>.set({ ...formulationData, updatedAt: new Date() })\<close>\<close>
  "setFormulationData fd now f =
     \<lparr> f_name = orKeep (d_name fd) (f_name f),
       f_description = (case d_description fd of None \<Rightarrow> f_description f | Some x \<Rightarrow> Some x),
       f_formulationType = orKeep (d_formulationType fd) (f_formulationType f),
       f_status = orKeep (d_status fd) (f_status f),
       f_animalId = orKeep (d_animalId fd) (f_animalId f),
       f_productionStageId = orKeep (d_productionStageId fd) (f_productionStageId f),
       f_formulationQuantity = orKeep (d_formulationQuantity fd) (f_formulationQuantity f),
       f_optimizationObjective = orKeep (d_optimizationObjective fd) (f_optimizationObjective f),
       f_totalCost = orKeep (d_totalCost fd) (f_totalCost f),
       f_costPerUnit = orKeep (d_costPerUnit fd) (f_costPerUnit f),
       f_nutritionalAnalysis = orKeep (d_nutritionalAnalysis fd) (f_nutritionalAnalysis f),
       f_meetsRequirements = orKeep (d_meetsRequirements fd) (f_meetsRequirements f),
       f_ingredientCount = orKeep (d_ingredientCount fd) (f_ingredientCount f),
       f_mainIngredients =
         (case d_mainIngredients fd of None \<Rightarrow> f_mainIngredients f | Some x \<Rightarrow> Some x),
       f_createdBy = orKeep (d_createdBy fd) (f_createdBy f),
       f_updatedAt = now \<rparr>"

definition setIngredientSummary :: "ingredient_entry list \<Rightarrow> nat \<Rightarrow> formulation \<Rightarrow> formulation" where
  \<comment> \<open>\<^verbatim>\<open>.set({ ingredientCount, mainIngredients, updatedAt })\<close> after the rows are in\<close>
  "setIngredientSummary ingredientData now f =
     f\<lparr> f_ingredientCount := int (length ingredientData),
        f_mainIngredients := Some (topIngredients (js_sort byPercentageDesc ingredientData)),
        f_updatedAt := now \<rparr>"

definition replaceIngredients ::
  "nat \<Rightarrow> nat \<Rightarrow> formulation_data \<Rightarrow> ingredient_entry list \<Rightarrow> db \<Rightarrow> exn + db" where
  \<comment> \<open>the \<^verbatim>\<open>if (ingredientData) { ... }\<close> of the transaction; the denominator is
      \<^verbatim>\<open>parseFloat(formulationData.totalCost?.toString() || '0')\<close>\<close>
  "replaceIngredients validatedId now formulationData ingredientData tx =
     (if \<bar>totalPercentage ingredientData - 100\<bar> > 0.1
      then Inl (JsError (CurrentSum (toFixed1 (totalPercentage ingredientData))))
      else
        (let tx1 = deleteFormulationIngredients validatedId tx;
             newIngredients =
               map (ingredientRow tx1 validatedId (orKeep (d_totalCost formulationData) 0))
                 (enumerate 0 ingredientData)
         in case insertFormulationIngredients newIngredients tx1 of
              Inl error \<Rightarrow> Inl error
            | Inr tx2 \<Rightarrow>
                updateFormulationRow validatedId (setIngredientSummary ingredientData now) tx2))"

definition updateTransaction ::
  "nat \<Rightarrow> nat \<Rightarrow> formulation_data \<Rightarrow> ingredient_entry list option \<Rightarrow> db \<Rightarrow> exn + db" where
  "updateTransaction validatedId now formulationData ingredientData tx =
     (case (if hasKeys formulationData
            then updateFormulationRow validatedId (setFormulationData formulationData now) tx
            else Inr tx) of
        Inl error \<Rightarrow> Inl error
      | Inr tx1 \<Rightarrow>
          (case ingredientData of
             None \<Rightarrow> Inr tx1
           | Some ings \<Rightarrow> replaceIngredients validatedId now formulationData ings tx1))"

definition updateFormulation ::
  "ident \<Rightarrow> formulation_data \<Rightarrow> nat \<Rightarrow> db \<Rightarrow> formulation_view action_result \<times> db" where
  "updateFormulation anId data now d =
     (case idSchema_parse anId of
        Inl error \<Rightarrow> (handleDatabaseError error, d)
      | Inr validatedId \<Rightarrow>
          (case validateInput False data of
             Inl errors \<Rightarrow> (Invalid errors, d)
           | Inr validated \<Rightarrow>
               (case formulations d validatedId of
                  None \<Rightarrow> (createErrorResponse ''Formulation not found'' None, d)
                | Some existingFormulation \<Rightarrow>
                    (if f_status existingFormulation = ''active''
                     then (createErrorResponse ''Cannot edit active formulation''
                             (Some (Text ''Deactivate the formulation first before making changes'')), d)
                     else
                       (case updateTransaction validatedId now (validated\<lparr>d_ingredients := None\<rparr>)
                               (d_ingredients validated) d of
                          Inl error \<Rightarrow> (handleDatabaseError error, d)
                        | Inr d' \<Rightarrow> getFormulationById (Uuid validatedId) d')))))"

subsection \<open>\<^verbatim>\<open>deleteFormulation\<close>, \<^verbatim>\<open>toggleFormulationStatus\<close>, \<^verbatim>\<open>duplicateFormulation\<close>\<close>

definition deleteFormulation :: "ident \<Rightarrow> db \<Rightarrow> unit action_result \<times> db" where
  \<comment> \<open>the rows of the formulation go with it: their foreign key is \<^verbatim>\<open>onDelete: "cascade"\<close>\<close>
  "deleteFormulation anId d =
     (case idSchema_parse anId of
        Inl error \<Rightarrow> (handleDatabaseError error, d)
      | Inr validatedId \<Rightarrow>
          (case formulations d validatedId of
             None \<Rightarrow> (createErrorResponse ''Formulation not found'' None, d)
           | Some formulationInfo \<Rightarrow>
               (if f_status formulationInfo = ''active''
                then (createErrorResponse ''Cannot delete active formulation''
                        (Some (Text ''Deactivate the formulation first before deleting'')), d)
                else
                  (createSuccessResponse ()
                     (Some (''Formulation '' @ [CHR 0x22] @ f_name formulationInfo @ [CHR 0x22]
                            @ '' deleted successfully'')),
                   deleteFormulationIngredients validatedId
                     (d\<lparr>formulations := (formulations d)(validatedId := None)\<rparr>)))))"

definition toggleFormulationStatus ::
  "ident \<Rightarrow> bool \<Rightarrow> nat \<Rightarrow> db \<Rightarrow> formulation action_result \<times> db" where
  "toggleFormulationStatus anId activate now d =
     (case idSchema_parse anId of
        Inl error \<Rightarrow> (handleDatabaseError error, d)
      | Inr validatedId \<Rightarrow>
          (case formulations d validatedId of
             None \<Rightarrow> (createErrorResponse ''Formulation not found'' None, d)
           | Some f \<Rightarrow>
               (let updatedFormulation =
                      f\<lparr>f_status := (if activate then ''active'' else ''draft''), f_updatedAt := now\<rparr>
                in (createSuccessResponse updatedFormulation
                      (Some (''Formulation '' @ (if activate then ''activated'' else ''deactivated'')
                             @ '' successfully'')),
                    d\<lparr>formulations := (formulations d)(validatedId \<mapsto> updatedFormulation)\<rparr>))))"

definition copyDescription :: "formulation \<Rightarrow> string" where
  \<comment> \<open>\<^verbatim>\<open>original.description ? `Copy of: ${original.description}` : `Copy of ${original.name}`\<close>;
      null and the empty string are both falsy\<close>
  "copyDescription original =
     (case f_description original of
        None \<Rightarrow> ''Copy of '' @ f_name original
      | Some description \<Rightarrow>
          (if description = [] then ''Copy of '' @ f_name original else ''Copy of: '' @ description))"

definition copyIngredient :: "ingredient_view \<Rightarrow> ingredient_entry" where
  "copyIngredient ing =
     \<lparr> e_ingredientId = fi_ingredientId (iv_row ing),
       e_quantity = fi_quantity (iv_row ing),
       e_percentage = fi_percentage (iv_row ing),
       e_ingredientRole = fi_ingredientRole (iv_row ing),
       e_isEssential = fi_isEssential (iv_row ing) \<rparr>"

definition newFormulationData :: "string \<Rightarrow> formulation_view \<Rightarrow> formulation_data" where
  \<comment> \<open>the object \<^verbatim>\<open>{ ...newFormulationData, ingredients: ingredientsData }\<close> handed to
      \<^verbatim>\<open>createFormulation\<close>; the keys the literal does not write are absent\<close>
  "newFormulationData newName original =
     \<lparr> d_name = Some newName,
       d_description = Some (copyDescription (v_formulation original)),
       d_formulationType = Some (f_formulationType (v_formulation original)),
       d_status = Some ''draft'',
       d_animalId = Some (f_animalId (v_formulation original)),
       d_productionStageId = Some (f_productionStageId (v_formulation original)),
       d_formulationQuantity = Some (f_formulationQuantity (v_formulation original)),
       d_optimizationObjective = Some (f_optimizationObjective (v_formulation original)),
       d_totalCost = Some (f_totalCost (v_formulation original)),
       d_costPerUnit = Some (f_costPerUnit (v_formulation original)),
       d_nutritionalAnalysis = None,
       d_meetsRequirements = None,
       d_ingredientCount = None,
       d_mainIngredients = None,
       d_createdBy = Some (f_createdBy (v_formulation original)),
       d_ingredients = Some (map copyIngredient (v_ingredients original)) \<rparr>"

definition duplicateFormulation ::
  "ident \<Rightarrow> string \<Rightarrow> nat \<Rightarrow> nat \<Rightarrow> db \<Rightarrow> created action_result \<times> db" where
  "duplicateFormulation anId newName gid now d =
     (case idSchema_parse anId of
        Inl error \<Rightarrow> (handleDatabaseError error, d)
      | Inr validatedId \<Rightarrow>
          (case fst (getFormulationById (Uuid validatedId) d) of
             Success original _ \<Rightarrow> createFormulation gid now (newFormulationData newName original) d
           | _ \<Rightarrow> (createErrorResponse ''Original formulation not found'' None, d)))"

subsection \<open>The main-ingredients summary as the specification words it\<close>

text \<open>
  Stable sort by percentage descending, the first five, each projected to its ingredient and
  percentage. \<open>sort_key\<close> is the stable sort of the list library.
\<close>

definition mainIngredientsSpec :: "ingredient_entry list \<Rightarrow> (nat \<times> rat) list" where
  "mainIngredientsSpec entries =
     map (\<lambda>e. (e_ingredientId e, e_percentage e)) (take 5 (sort_key (\<lambda>e. - e_percentage e) entries))"

subsection \<open>Sample data\<close>

definition corn :: ingredient where
  "corn = \<lparr>i_name = ''Corn'', i_category = Some ''Energy'', i_costPerUnit = 1, i_unit = ''kg''\<rparr>"

definition soy :: ingredient where
  "soy = \<lparr>i_name = ''Soybean meal'', i_category = None, i_costPerUnit = 3 / 2, i_unit = ''kg''\<rparr>"

definition emptyDb :: db where
  "emptyDb = \<lparr> animals = [1 \<mapsto> \<lparr>a_displayName = ''Broiler'', a_species = ''Chicken''\<rparr>],
               productionStages = [1 \<mapsto> ''Starter''],
               ingredients = [1 \<mapsto> corn, 2 \<mapsto> soy],
               formulations = Map.empty,
               formulationIngredients = [] \<rparr>"

definition entry :: "nat \<Rightarrow> rat \<Rightarrow> rat \<Rightarrow> ingredient_entry" where
  "entry i q p = \<lparr>e_ingredientId = i, e_quantity = q, e_percentage = p,
                  e_ingredientRole = ''Primary'', e_isEssential = False\<rparr>"

definition noData :: formulation_data where
  "noData = \<lparr> d_name = None, d_description = None, d_formulationType = None,
     d_status = None, d_animalId = None, d_productionStageId = None, d_formulationQuantity = None,
     d_optimizationObjective = None, d_totalCost = None, d_costPerUnit = None,
     d_nutritionalAnalysis = None, d_meetsRequirements = None, d_ingredientCount = None,
     d_mainIngredients = None, d_createdBy = None, d_ingredients = None \<rparr>"

definition starter :: "rat \<Rightarrow> ingredient_entry list \<Rightarrow> formulation_data" where
  "starter totalCost ings =
     \<lparr> d_name = Some ''Broiler Starter'', d_description = None, d_formulationType = Some ''Custom'',
       d_status = None, d_animalId = Some 1, d_productionStageId = Some 1,
       d_formulationQuantity = Some 100, d_optimizationObjective = Some ''cost'',
       d_totalCost = Some totalCost, d_costPerUnit = Some 1, d_nutritionalAnalysis = Some ''{}'',
       d_meetsRequirements = Some False, d_ingredientCount = Some 0, d_mainIngredients = None,
       d_createdBy = Some ''nutritionist'', d_ingredients = Some ings \<rparr>"

definition storedStarter :: "string \<Rightarrow> formulation" where
  "storedStarter status =
     \<lparr> f_name = ''Broiler Starter'', f_description = None, f_formulationType = ''Custom'',
       f_status = status, f_animalId = 1, f_productionStageId = 1, f_formulationQuantity = 100,
       f_optimizationObjective = ''cost'', f_totalCost = 100, f_costPerUnit = 1,
       f_nutritionalAnalysis = ''{}'', f_meetsRequirements = False, f_ingredientCount = 2,
       f_mainIngredients = Some [(1, 60), (2, 40)], f_createdBy = ''nutritionist'', f_updatedAt = 0 \<rparr>"

definition storedDb :: "string \<Rightarrow> db" where
  "storedDb status =
     emptyDb\<lparr> formulations := [7 \<mapsto> storedStarter status],
              formulationIngredients :=
                map (ingredientRow emptyDb 7 100) [(0, entry 1 60 60), (1, entry 2 40 40)] \<rparr>"

subsection \<open>Vocabulary of the properties\<close>

text \<open>
  \<open>createdRows\<close> reads the ingredient rows out of the result of a create. \<open>costedFrom\<close> relates an
  entry of the payload to the row made for it. \<open>call\<close> and \<open>perform\<close> collect the actions that
  write to a formulation other than the status toggle. \<open>agreeUpToTotalCost\<close> relates two
  databases that differ at most in the stored \<^verbatim>\<open>totalCost\<close> of one formulation.
\<close>

datatype call =
    Create nat nat formulation_data
  | Update ident formulation_data nat
  | Delete ident
  | Duplicate ident string nat nat


fun createdRows :: "created action_result \<Rightarrow> formulation_ingredient list" where
  "createdRows (Success r _) = c_ingredients r"
| "createdRows _ = []"


fun perform :: "call \<Rightarrow> db \<Rightarrow> db" where
  "perform (Create gid now data) d = snd (createFormulation gid now data d)"
| "perform (Update anId data now) d = snd (updateFormulation anId data now d)"
| "perform (Delete anId) d = snd (deleteFormulation anId d)"
| "perform (Duplicate anId newName gid now) d = snd (duplicateFormulation anId newName gid now d)"

section \<open>Properties\<close>

subsection \<open>The embedding, step by step\<close>

lemma js_insert_byPercentageDesc:
  "js_insert byPercentageDesc x xs = insort_key (\<lambda>e. - e_percentage e) x xs"
  by (induction xs) (auto simp: byPercentageDesc_def)

lemma js_sort_byPercentageDesc:
  "js_sort byPercentageDesc xs = sort_key (\<lambda>e. - e_percentage e) xs"
  by (induction xs) (simp_all add: js_sort_def sort_key_def js_insert_byPercentageDesc)

lemma topIngredients_spec:
  "topIngredients (js_sort byPercentageDesc xs) = mainIngredientsSpec xs"
  by (simp add: topIngredients_def mainIngredientsSpec_def js_sort_byPercentageDesc)

lemma validateInput_Inr:
  "validateInput req data = Inr validated \<Longrightarrow>
     schema_issues req data = [] \<and> d_ingredients validated = d_ingredients data
     \<and> d_totalCost validated = d_totalCost data"
  by (auto simp: validateInput_def split: if_splits)

lemma createFormulation_failure:
  "\<not> is_success (fst (createFormulation gid now data d)) \<Longrightarrow>
     snd (createFormulation gid now data d) = d"
  by (auto simp: createFormulation_def createSuccessResponse_def createErrorResponse_def
           split: sum.splits option.splits if_splits prod.splits)

lemma createFormulation_success:
  assumes "is_success (fst (createFormulation gid now data d))"
  obtains validated ings r where
    "validateInput True data = Inr validated" "d_ingredients data = Some ings"
    "\<bar>totalPercentage ings - 100\<bar> \<le> 0.1"
    "createTransaction gid now (validated\<lparr>d_ingredients := None\<rparr>) ings d
       = Inr (r, snd (createFormulation gid now data d))"
    "fst (createFormulation gid now data d) = Success r (Some ''Formulation created successfully'')"
  using assms
  by (auto simp: createFormulation_def createSuccessResponse_def createErrorResponse_def
        handleDatabaseError_def
           split: sum.splits option.splits if_splits prod.splits exn.splits dest!: validateInput_Inr)

lemma createTransaction_Inr:
  assumes "createTransaction gid now fd ings d = Inr (r, d')"
  obtains row where
    "newFormulation now fd (int (length ings)) (mainIngredientsSpec ings) = Some row"
    "formulations d gid = None"
    "c_id r = gid" "c_formulation r = row"
    "c_ingredients r = map (ingredientRow (d\<lparr>formulations := (formulations d)(gid \<mapsto> row)\<rparr>) gid (f_totalCost row))
              (enumerate 0 (js_sort byPercentageDesc ings))"
    "list_all (\<lambda>r. ingredients d (fi_ingredientId r) \<noteq> None) (c_ingredients r)"
    "d' = d\<lparr>formulations := (formulations d)(gid \<mapsto> row),
            formulationIngredients := formulationIngredients d @ c_ingredients r\<rparr>"
  using assms
  by (auto simp: createTransaction_def Let_def insertFormulation_def insertFormulationIngredients_def
        topIngredients_spec list_all_iff
           split: sum.splits option.splits if_splits)

lemma ingredientRow_cong:
  "ingredients tx = ingredients tx' \<Longrightarrow> ingredientRow tx = ingredientRow tx'"
  by (rule ext)+ (simp add: ingredientRow_def)

lemma ingredientRow_other_tables [simp]:
  "ingredientRow (tx\<lparr>formulationIngredients := rs\<rparr>) = ingredientRow tx"
  "ingredientRow (tx\<lparr>formulations := fs\<rparr>) = ingredientRow tx"
  by (rule ext, rule ext, rule ext, simp add: ingredientRow_def)+

lemma ingredientIds_of_rows:
  "map fi_ingredientId (map (ingredientRow tx fid c) (enumerate n ings)) = map e_ingredientId ings"
  by (induction ings arbitrary: n) (simp_all add: ingredientRow_def Let_def)

lemma rows_reference_ingredients:
  "list_all (\<lambda>r. Q (fi_ingredientId r)) (map (ingredientRow tx fid c) (enumerate n ings))
     = list_all (\<lambda>e. Q (e_ingredientId e)) ings"
proof -
  have "list_all (\<lambda>r. Q (fi_ingredientId r)) (map (ingredientRow tx fid c) (enumerate n ings))
          = list_all Q (map fi_ingredientId (map (ingredientRow tx fid c) (enumerate n ings)))"
    by (simp add: list_all_iff)
  also have "\<dots> = list_all Q (map e_ingredientId ings)"
    by (simp only: ingredientIds_of_rows)
  finally show ?thesis by (simp add: list_all_iff)
qed

lemma updateFormulationRow_Inr:
  assumes "updateFormulationRow fid upd tx = Inr tx'" "formulations tx fid = Some f"
  shows "tx' = tx\<lparr>formulations := (formulations tx)(fid \<mapsto> upd f)\<rparr>"
  using assms by (auto simp: updateFormulationRow_def split: if_splits)

lemma ingredientsOf_append:
  "ingredientsOf fid (tx\<lparr>formulationIngredients := xs @ ys\<rparr>)
     = filter (\<lambda>r. fi_formulationId r = fid) xs @ filter (\<lambda>r. fi_formulationId r = fid) ys"
  by (simp add: ingredientsOf_def)

lemma map_ingredientRow_formulationId:
  "filter (\<lambda>r. fi_formulationId r = j) (map (ingredientRow tx fid c) ps)
     = (if j = fid then map (ingredientRow tx fid c) ps else [])"
  by (induction ps) (auto simp: ingredientRow_def Let_def split: prod.splits)

lemma replaceIngredients_Inr:
  assumes "replaceIngredients i now fd ings tx = Inr tx'" "formulations tx i = Some f"
  shows "\<bar>totalPercentage ings - 100\<bar> \<le> 0.1"
    and "formulations tx' = (formulations tx)(i \<mapsto> setIngredientSummary ings now f)"
    and "animals tx' = animals tx" and "productionStages tx' = productionStages tx"
    and "ingredients tx' = ingredients tx"
    and "formulationIngredients tx'
           = filter (\<lambda>r. fi_formulationId r \<noteq> i) (formulationIngredients tx)
             @ map (ingredientRow tx i (orKeep (d_totalCost fd) 0)) (enumerate 0 ings)"
    and "list_all (\<lambda>e. ingredients tx (e_ingredientId e) \<noteq> None) ings"
proof -
  let ?tx1 = "deleteFormulationIngredients i tx"
  let ?rows = "map (ingredientRow ?tx1 i (orKeep (d_totalCost fd) 0)) (enumerate 0 ings)"
  from assms(1) show le: "\<bar>totalPercentage ings - 100\<bar> \<le> 0.1"
    by (auto simp: replaceIngredients_def split: if_splits)
  from assms(1) le obtain tx2 where
    ins: "insertFormulationIngredients ?rows ?tx1 = Inr tx2"
    and upd: "updateFormulationRow i (setIngredientSummary ings now) tx2 = Inr tx'"
    by (auto simp: replaceIngredients_def Let_def split: if_splits sum.splits)
  have rows: "?rows = map (ingredientRow tx i (orKeep (d_totalCost fd) 0)) (enumerate 0 ings)"
    by (simp add: deleteFormulationIngredients_def)
  from ins have tx2: "tx2 = ?tx1\<lparr>formulationIngredients := formulationIngredients ?tx1 @ ?rows\<rparr>"
    and fk: "list_all (\<lambda>r. ingredients ?tx1 (fi_ingredientId r) \<noteq> None) ?rows"
    by (auto simp: insertFormulationIngredients_def list_all_iff split: if_splits)
  have f2: "formulations tx2 i = Some f"
    using assms(2) by (simp add: tx2 deleteFormulationIngredients_def)
  from updateFormulationRow_Inr [OF upd f2]
  have tx': "tx' = tx2\<lparr>formulations := (formulations tx2)(i \<mapsto> setIngredientSummary ings now f)\<rparr>" .
  show "formulations tx' = (formulations tx)(i \<mapsto> setIngredientSummary ings now f)"
    by (simp add: tx' tx2 deleteFormulationIngredients_def)
  show "animals tx' = animals tx" "productionStages tx' = productionStages tx"
    "ingredients tx' = ingredients tx"
    by (simp_all add: tx' tx2 deleteFormulationIngredients_def)
  show "formulationIngredients tx'
           = filter (\<lambda>r. fi_formulationId r \<noteq> i) (formulationIngredients tx)
             @ map (ingredientRow tx i (orKeep (d_totalCost fd) 0)) (enumerate 0 ings)"
    using rows by (simp add: tx' tx2 deleteFormulationIngredients_def)
  from fk show "list_all (\<lambda>e. ingredients tx (e_ingredientId e) \<noteq> None) ings"
    by (simp add: rows_reference_ingredients [where Q = "\<lambda>k. ingredients tx k \<noteq> None"]
          deleteFormulationIngredients_def del: not_None_eq)
qed

lemma getFormulationById_reads_only: "snd (getFormulationById anId d) = d"
  by (simp add: getFormulationById_def split: sum.splits option.splits)

lemma getFormulationById_found:
  "formulations d i = Some f \<Longrightarrow> is_success (fst (getFormulationById (Uuid i) d))"
  by (simp add: getFormulationById_def idSchema_parse_def createSuccessResponse_def)

lemma updateTransaction_metadata_only:
  assumes "updateTransaction i now fd None d = Inr d'" "formulations d i = Some f"
  shows "formulations d' = (formulations d)(i \<mapsto> (if hasKeys fd then setFormulationData fd now f else f))"
    and "formulationIngredients d' = formulationIngredients d"
    and "ingredients d' = ingredients d"
    and "animals d' = animals d" and "productionStages d' = productionStages d"
proof -
  show "formulations d' = (formulations d)(i \<mapsto> (if hasKeys fd then setFormulationData fd now f else f))"
  proof (cases "hasKeys fd")
    case True
    with assms(1) have "updateFormulationRow i (setFormulationData fd now) d = Inr d'"
      by (simp add: updateTransaction_def split: sum.splits)
    from updateFormulationRow_Inr [OF this assms(2)] True show ?thesis by simp
  next
    case False
    with assms show ?thesis by (auto simp: updateTransaction_def)
  qed
  show "formulationIngredients d' = formulationIngredients d" "ingredients d' = ingredients d"
    "animals d' = animals d" "productionStages d' = productionStages d"
    using assms
    by (auto simp: updateTransaction_def updateFormulationRow_def split: sum.splits if_splits)
qed

lemma updateTransaction_ingredients:
  assumes "updateTransaction i now fd (Some ings) d = Inr d'" "formulations d i = Some f"
  shows "formulations d'
           = (formulations d)(i \<mapsto> setIngredientSummary ings now
                                      (if hasKeys fd then setFormulationData fd now f else f))"
    and "formulationIngredients d'
           = filter (\<lambda>r. fi_formulationId r \<noteq> i) (formulationIngredients d)
             @ map (ingredientRow d i (orKeep (d_totalCost fd) 0)) (enumerate 0 ings)"
    and "ingredients d' = ingredients d"
    and "animals d' = animals d" and "productionStages d' = productionStages d"
    and "\<bar>totalPercentage ings - 100\<bar> \<le> 0.1"
    and "list_all (\<lambda>e. ingredients d (e_ingredientId e) \<noteq> None) ings"
proof -
  from assms(1) obtain tx1 where
    meta: "updateTransaction i now fd None d = Inr tx1"
    and repl: "replaceIngredients i now fd ings tx1 = Inr d'"
    by (auto simp: updateTransaction_def split: sum.splits)
  note m = updateTransaction_metadata_only [OF meta assms(2)]
  have f1: "formulations tx1 i = Some (if hasKeys fd then setFormulationData fd now f else f)"
    by (simp add: m(1))
  note r = replaceIngredients_Inr [OF repl f1]
  show "formulations d'
           = (formulations d)(i \<mapsto> setIngredientSummary ings now
                                      (if hasKeys fd then setFormulationData fd now f else f))"
    by (simp add: r(2) m(1))
  show "formulationIngredients d'
           = filter (\<lambda>r. fi_formulationId r \<noteq> i) (formulationIngredients d)
             @ map (ingredientRow d i (orKeep (d_totalCost fd) 0)) (enumerate 0 ings)"
    using ingredientRow_cong [OF m(3)] by (simp add: r(6) m(2))
  show "ingredients d' = ingredients d" "animals d' = animals d"
    "productionStages d' = productionStages d"
    by (simp_all add: r m)
  show "\<bar>totalPercentage ings - 100\<bar> \<le> 0.1" by (rule r(1))
  show "list_all (\<lambda>e. ingredients d (e_ingredientId e) \<noteq> None) ings"
    using r(7) by (simp only: m(3))
qed

lemma updateTransaction_keeps_formulation:
  assumes "updateTransaction i now fd io d = Inr d'" "formulations d i = Some f"
  shows "formulations d' i \<noteq> None"
proof (cases io)
  case None
  with updateTransaction_metadata_only(1) [of i now fd d d' f] assms show ?thesis by simp
next
  case (Some ings)
  with updateTransaction_ingredients(1) [of i now fd ings d d' f] assms show ?thesis by simp
qed

lemma updateFormulation_failure:
  assumes "\<not> is_success (fst (updateFormulation anId data now d))"
  shows "snd (updateFormulation anId data now d) = d"
proof -
  { fix i validated f d'
    assume "formulations d i = Some f"
      and "updateTransaction i now (validated\<lparr>d_ingredients := None\<rparr>) (d_ingredients validated) d = Inr d'"
    then have "formulations d' i \<noteq> None" by (rule updateTransaction_keeps_formulation [rotated])
    then have "is_success (fst (getFormulationById (Uuid i) d'))"
      by (auto intro: getFormulationById_found) }
  with assms show ?thesis
    by (auto simp: updateFormulation_def split: sum.splits option.splits if_splits)
qed

lemma updateFormulation_success:
  assumes "is_success (fst (updateFormulation anId data now d))"
  obtains i validated f where
    "anId = Uuid i" "validateInput False data = Inr validated" "formulations d i = Some f"
    "f_status f \<noteq> ''active''"
    "updateTransaction i now (validated\<lparr>d_ingredients := None\<rparr>) (d_ingredients data) d
       = Inr (snd (updateFormulation anId data now d))"
  using assms
  by (auto simp: updateFormulation_def idSchema_parse_def handleDatabaseError_def
        createErrorResponse_def getFormulationById_reads_only
        split: sum.splits option.splits if_splits ident.splits exn.splits
        dest!: validateInput_Inr)

lemma newFormulationData_misses_required_keys:
  "schema_issues True (newFormulationData newName original) \<noteq> []"
  by (simp add: schema_issues_def newFormulationData_def issue_def)

lemma ingredientsOf_filter_other:
  "j \<noteq> i \<Longrightarrow>
   filter (\<lambda>r. fi_formulationId r \<noteq> j \<and> fi_formulationId r = i) xs
     = filter (\<lambda>r. fi_formulationId r = i) xs"
  by (rule filter_cong) auto

lemma createFormulation_frame:
  assumes "formulations d i = Some f"
  shows "formulations (snd (createFormulation gid now data d)) i = Some f"
    and "ingredientsOf i (snd (createFormulation gid now data d)) = ingredientsOf i d"
proof -
  let ?d' = "snd (createFormulation gid now data d)"
  have "formulations ?d' i = Some f \<and> ingredientsOf i ?d' = ingredientsOf i d"
  proof (cases "is_success (fst (createFormulation gid now data d))")
    case False
    then show ?thesis using assms by (simp add: createFormulation_failure)
  next
    case True
    then obtain validated ings r where
      "createTransaction gid now (validated\<lparr>d_ingredients := None\<rparr>) ings d = Inr (r, ?d')"
      by (rule createFormulation_success)
    then obtain row where
      fresh: "formulations d gid = None"
      and rows: "c_ingredients r
           = map (ingredientRow (d\<lparr>formulations := (formulations d)(gid \<mapsto> row)\<rparr>) gid (f_totalCost row))
               (enumerate 0 (js_sort byPercentageDesc ings))"
      and d': "?d' = d\<lparr>formulations := (formulations d)(gid \<mapsto> row),
                       formulationIngredients := formulationIngredients d @ c_ingredients r\<rparr>"
      by (rule createTransaction_Inr)
    from fresh assms have ne: "i \<noteq> gid" by auto
    have "filter (\<lambda>r. fi_formulationId r = i) (c_ingredients r) = []"
      unfolding rows using ne by (simp only: map_ingredientRow_formulationId if_False)
    with ne assms show ?thesis
      by (simp add: d' ingredientsOf_def)
  qed
  then show "formulations ?d' i = Some f" "ingredientsOf i ?d' = ingredientsOf i d" by simp_all
qed

lemma updateFormulation_frame:
  assumes "formulations d i = Some f" "f_status f = ''active''"
  shows "formulations (snd (updateFormulation anId data now d)) i = Some f"
    and "ingredientsOf i (snd (updateFormulation anId data now d)) = ingredientsOf i d"
proof -
  let ?d' = "snd (updateFormulation anId data now d)"
  have "formulations ?d' i = Some f \<and> ingredientsOf i ?d' = ingredientsOf i d"
  proof (cases "is_success (fst (updateFormulation anId data now d))")
    case False
    then show ?thesis using assms by (simp add: updateFormulation_failure)
  next
    case True
    then obtain j validated g where
      j: "formulations d j = Some g" "f_status g \<noteq> ''active''"
      and tx: "updateTransaction j now (validated\<lparr>d_ingredients := None\<rparr>) (d_ingredients data) d = Inr ?d'"
      by (rule updateFormulation_success)
    from j assms have ne: "j \<noteq> i" by auto
    show ?thesis
    proof (cases "d_ingredients data")
      case None
      with tx updateTransaction_metadata_only [of j now "validated\<lparr>d_ingredients := None\<rparr>" d ?d' g] j ne assms
      show ?thesis by (simp add: ingredientsOf_def)
    next
      case (Some ings)
      with tx updateTransaction_ingredients [of j now "validated\<lparr>d_ingredients := None\<rparr>" ings d ?d' g] j
      have "formulations ?d' i = formulations d i"
        and "formulationIngredients ?d'
             = filter (\<lambda>r. fi_formulationId r \<noteq> j) (formulationIngredients d)
               @ map (ingredientRow d j (orKeep (d_totalCost (validated\<lparr>d_ingredients := None\<rparr>)) 0))
                   (enumerate 0 ings)"
        using ne by simp_all
      then show ?thesis using ne assms
        by (simp add: ingredientsOf_def ingredientsOf_filter_other map_ingredientRow_formulationId)
    qed
  qed
  then show "formulations ?d' i = Some f" "ingredientsOf i ?d' = ingredientsOf i d" by simp_all
qed

lemma deleteFormulation_frame:
  assumes "formulations d i = Some f" "f_status f = ''active''"
  shows "formulations (snd (deleteFormulation anId d)) i = Some f"
    and "ingredientsOf i (snd (deleteFormulation anId d)) = ingredientsOf i d"
proof -
  have "formulations (snd (deleteFormulation anId d)) i = Some f
        \<and> ingredientsOf i (snd (deleteFormulation anId d)) = ingredientsOf i d"
  proof (cases anId)
    case NotUuid
    with assms show ?thesis by (simp add: deleteFormulation_def idSchema_parse_def)
  next
    case (Uuid j)
    show ?thesis
    proof (cases "formulations d j")
      case None
      with Uuid assms show ?thesis by (simp add: deleteFormulation_def idSchema_parse_def)
    next
      case (Some g)
      show ?thesis
      proof (cases "f_status g = ''active''")
        case True
        with Uuid Some assms show ?thesis by (simp add: deleteFormulation_def idSchema_parse_def)
      next
        case False
        with Some assms have "j \<noteq> i" by auto
        with Uuid Some False assms show ?thesis
          by (simp add: deleteFormulation_def idSchema_parse_def deleteFormulationIngredients_def
                ingredientsOf_def ingredientsOf_filter_other)
      qed
    qed
  qed
  then show "formulations (snd (deleteFormulation anId d)) i = Some f"
    "ingredientsOf i (snd (deleteFormulation anId d)) = ingredientsOf i d" by simp_all
qed


lemma ingredientsOf_replaced:
  "formulationIngredients d'
     = filter (\<lambda>r. fi_formulationId r \<noteq> i) xs @ map (ingredientRow tx i c) ps \<Longrightarrow>
   ingredientsOf i d' = map (ingredientRow tx i c) ps"
  by (simp add: ingredientsOf_def map_ingredientRow_formulationId)

lemma updateFormulation_rows:
  assumes "is_success (fst (updateFormulation (Uuid i) data now d))"
    and "d_ingredients data = Some entries"
  shows "ingredientsOf i (snd (updateFormulation (Uuid i) data now d))
           = map (ingredientRow d i (orKeep (d_totalCost data) 0)) (enumerate 0 entries)"
    and "list_all (\<lambda>e. ingredients d (e_ingredientId e) \<noteq> None) entries"
    and "\<bar>totalPercentage entries - 100\<bar> \<le> 0.1"
proof -
  from assms(1) obtain j validated f where
    j: "Uuid i = Uuid j" and v: "validateInput False data = Inr validated"
    and f: "formulations d j = Some f"
    and tx: "updateTransaction j now (validated\<lparr>d_ingredients := None\<rparr>) (d_ingredients data) d
               = Inr (snd (updateFormulation (Uuid i) data now d))"
    by (rule updateFormulation_success)
  from v have tc: "d_totalCost (validated\<lparr>d_ingredients := None\<rparr>) = d_totalCost data"
    by (auto dest: validateInput_Inr)
  note u = updateTransaction_ingredients [OF tx [unfolded assms(2)] f]
  from j have [simp]: "j = i" by simp
  from u(2) show "ingredientsOf i (snd (updateFormulation (Uuid i) data now d))
           = map (ingredientRow d i (orKeep (d_totalCost data) 0)) (enumerate 0 entries)"
    unfolding tc by (simp add: ingredientsOf_replaced)
  from u(7) show "list_all (\<lambda>e. ingredients d (e_ingredientId e) \<noteq> None) entries" .
  from u(6) show "\<bar>totalPercentage entries - 100\<bar> \<le> 0.1" .
qed

lemma createFormulation_rows:
  assumes "fst (createFormulation gid now data d) = Success r m"
    and "d_ingredients data = Some entries"
  shows "formulationIngredients (snd (createFormulation gid now data d))
           = formulationIngredients d @ c_ingredients r"
    and "c_ingredients r
           = map (ingredientRow d gid (f_totalCost (c_formulation r)))
               (enumerate 0 (js_sort byPercentageDesc entries))
           \<and> Some (f_totalCost (c_formulation r)) = d_totalCost data"
    and "list_all (\<lambda>e. ingredients d (e_ingredientId e) \<noteq> None) (js_sort byPercentageDesc entries)"
proof -
  from assms(1) have "is_success (fst (createFormulation gid now data d))" by simp
  then obtain validated ings r' where
    v: "validateInput True data = Inr validated" and i: "d_ingredients data = Some ings"
    and t: "createTransaction gid now (validated\<lparr>d_ingredients := None\<rparr>) ings d
              = Inr (r', snd (createFormulation gid now data d))"
    and s: "fst (createFormulation gid now data d) = Success r' (Some ''Formulation created successfully'')"
    by (rule createFormulation_success)
  from s assms(1) have [simp]: "r' = r" by simp
  from i assms(2) have [simp]: "ings = entries" by simp
  from v have tc: "d_totalCost (validated\<lparr>d_ingredients := None\<rparr>) = d_totalCost data"
    by (auto dest: validateInput_Inr)
  from t obtain row where
    nf: "newFormulation now (validated\<lparr>d_ingredients := None\<rparr>) (int (length ings)) (mainIngredientsSpec ings)
       = Some row"
    and cf: "c_formulation r' = row"
    and rows: "c_ingredients r'
       = map (ingredientRow (d\<lparr>formulations := (formulations d)(gid \<mapsto> row)\<rparr>) gid (f_totalCost row))
              (enumerate 0 (js_sort byPercentageDesc ings))"
    and fk: "list_all (\<lambda>r. ingredients d (fi_ingredientId r) \<noteq> None) (c_ingredients r')"
    and d': "snd (createFormulation gid now data d)
           = d\<lparr>formulations := (formulations d)(gid \<mapsto> row),
                formulationIngredients := formulationIngredients d @ c_ingredients r'\<rparr>"
    by (rule createTransaction_Inr)
  from d' show "formulationIngredients (snd (createFormulation gid now data d))
           = formulationIngredients d @ c_ingredients r" by simp
  from nf tc have "Some (f_totalCost row) = d_totalCost data"
    by (auto simp: newFormulation_def split: option.splits)
  with rows cf show "c_ingredients r
           = map (ingredientRow d gid (f_totalCost (c_formulation r)))
               (enumerate 0 (js_sort byPercentageDesc entries))
           \<and> Some (f_totalCost (c_formulation r)) = d_totalCost data"
    by simp
  from fk show "list_all (\<lambda>e. ingredients d (e_ingredientId e) \<noteq> None) (js_sort byPercentageDesc entries)"
    unfolding rows
    by (simp add: rows_reference_ingredients [where Q = "\<lambda>k. ingredients d k \<noteq> None"] del: not_None_eq)
qed














lemma duplicateFormulation_fails:
  "\<not> is_success (fst (duplicateFormulation anId newName gid now d))"
  "snd (duplicateFormulation anId newName gid now d) = d"
  by (auto simp: duplicateFormulation_def createFormulation_def validateInput_def
        newFormulationData_misses_required_keys handleDatabaseError_def createErrorResponse_def
        split: sum.splits action_result.splits exn.splits)

lemma summary_order:
  "sorted (map (\<lambda>e. - e_percentage e) (sort_key (\<lambda>e. - e_percentage e) entries))"
  "filter (\<lambda>e. e_percentage e = p) (sort_key (\<lambda>e. - e_percentage e) entries)
     = filter (\<lambda>e. e_percentage e = p) entries"
  "mset (sort_key (\<lambda>e. - e_percentage e) entries) = mset entries"
proof -
  show "sorted (map (\<lambda>e. - e_percentage e) (sort_key (\<lambda>e. - e_percentage e) entries))"
    by (rule sorted_sort_key)
  have "filter (\<lambda>e. - e_percentage e = - p) (sort_key (\<lambda>e. - e_percentage e) entries)
          = filter (\<lambda>e. - e_percentage e = - p) entries"
    by (rule sort_key_stable)
  then show "filter (\<lambda>e. e_percentage e = p) (sort_key (\<lambda>e. - e_percentage e) entries)
     = filter (\<lambda>e. e_percentage e = p) entries"
    by simp
  show "mset (sort_key (\<lambda>e. - e_percentage e) entries) = mset entries"
    by (rule mset_sort)
qed

lemma accepted_mix_within_tolerance:
  assumes "d_ingredients data = Some entries"
  shows "is_success (fst (createFormulation gid now data d)) \<Longrightarrow> \<bar>totalPercentage entries - 100\<bar> \<le> 0.1"
    and "is_success (fst (updateFormulation (Uuid i) data now d)) \<Longrightarrow>
           \<bar>totalPercentage entries - 100\<bar> \<le> 0.1"
proof -
  assume "is_success (fst (createFormulation gid now data d))"
  then obtain ings where "d_ingredients data = Some ings" "\<bar>totalPercentage ings - 100\<bar> \<le> 0.1"
    by (rule createFormulation_success)
  with assms show "\<bar>totalPercentage entries - 100\<bar> \<le> 0.1" by simp
next
  assume "is_success (fst (updateFormulation (Uuid i) data now d))"
  then show "\<bar>totalPercentage entries - 100\<bar> \<le> 0.1"
    using assms by (rule updateFormulation_rows(3))
qed

lemma createFormulation_rejects_mix:
  assumes "schema_issues True data = []" and "d_ingredients data = Some entries"
    and "\<bar>totalPercentage entries - 100\<bar> > 0.1"
  shows "createFormulation gid now data d
           = (Failure ''Invalid ingredient percentages''
                (Some (CurrentSum (toFixed1 (totalPercentage entries)))), d)"
  using assms by (simp add: createFormulation_def validateInput_def createErrorResponse_def)

lemma updateFormulation_never_reports_the_sum:
  "fst (updateFormulation anId data now d) \<noteq> Failure e (Some (CurrentSum s))"
  by (auto simp: updateFormulation_def getFormulationById_def idSchema_parse_def
        handleDatabaseError_def createErrorResponse_def createSuccessResponse_def
        split: sum.splits option.splits if_splits ident.splits exn.splits)

lemma updateFormulation_rejects_mix:
  assumes "schema_issues False data = []" and "d_ingredients data = Some entries"
    and "\<bar>totalPercentage entries - 100\<bar> > 0.1"
    and "formulations d i = Some f" and "f_status f \<noteq> ''active''"
  shows "\<not> is_success (fst (updateFormulation (Uuid i) data now d))"
    and "snd (updateFormulation (Uuid i) data now d) = d"
proof -
  show "\<not> is_success (fst (updateFormulation (Uuid i) data now d))"
    using accepted_mix_within_tolerance(2) [OF assms(2)] assms(3) by fastforce
  then show "snd (updateFormulation (Uuid i) data now d) = d"
    by (rule updateFormulation_failure)
qed

lemma updateFormulation_numbers_rows_by_position:
  assumes "is_success (fst (updateFormulation (Uuid i) data now d))"
    and "d_ingredients data = Some entries" and "k < length entries"
  shows "fi_ingredientId (ingredientsOf i (snd (updateFormulation (Uuid i) data now d)) ! k)
           = e_ingredientId (entries ! k)"
    and "fi_sequenceOrder (ingredientsOf i (snd (updateFormulation (Uuid i) data now d)) ! k) = k"
    and "fi_displayOrder (ingredientsOf i (snd (updateFormulation (Uuid i) data now d)) ! k) = k"
  using assms(3)
  by (simp_all add: updateFormulation_rows(1) [OF assms(1,2)] nth_enumerate_eq ingredientRow_def Let_def)

lemma createFormulation_numbers_rows_by_rank:
  assumes "is_success (fst (createFormulation gid now data d))"
    and "d_ingredients data = Some entries" and "k < length entries"
  shows "fi_ingredientId (createdRows (fst (createFormulation gid now data d)) ! k)
           = e_ingredientId (js_sort byPercentageDesc entries ! k)"
    and "fi_sequenceOrder (createdRows (fst (createFormulation gid now data d)) ! k) = k"
    and "fi_displayOrder (createdRows (fst (createFormulation gid now data d)) ! k) = k"
proof -
  from assms(1) obtain r m where s: "fst (createFormulation gid now data d) = Success r m"
    by (cases "fst (createFormulation gid now data d)") auto
  have len: "k < length (js_sort byPercentageDesc entries)"
    using assms(3) by (simp add: js_sort_byPercentageDesc)
  from createFormulation_rows(2) [OF s assms(2)] len
  show "fi_ingredientId (createdRows (fst (createFormulation gid now data d)) ! k)
           = e_ingredientId (js_sort byPercentageDesc entries ! k)"
    and "fi_sequenceOrder (createdRows (fst (createFormulation gid now data d)) ! k) = k"
    and "fi_displayOrder (createdRows (fst (createFormulation gid now data d)) ! k) = k"
    by (simp_all add: s nth_enumerate_eq ingredientRow_def Let_def)
qed

lemma zero_totalCost_is_never_a_finite_share:
  "fi_costPercentage (ingredientRow tx fid 0 p) \<noteq> Num x"
  by (cases p) (simp add: ingredientRow_def Let_def js_div_def)

subsection \<open>The scenarios of the specification on the sample data\<close>

text \<open>
  Scenario A: corn 60 at unit cost 1 and soybean 40 at unit cost 1.5 under a total cost of
  100 give the contributions 60 and 60 and the shares 60 and 60, and the summary corn 60,
  soybean 40. The stored sample \<open>storedDb\<close> is what that create leaves behind.
\<close>

lemma sample_is_what_create_stores:
  "createFormulation 7 0 (starter 100 [entry 1 60 60, entry 2 40 40]) emptyDb
     = (Success \<lparr> c_id = 7, c_formulation = storedStarter ''draft'',
                   c_ingredients = formulationIngredients (storedDb ''draft'') \<rparr>
          (Some ''Formulation created successfully''),
        storedDb ''draft'')"
  by (simp add: createFormulation_def validateInput_def schema_issues_def issue_def entry_ok_def
        starter_def entry_def emptyDb_def totalPercentage_def createTransaction_def
        newFormulation_def js_sort_def byPercentageDesc_def topIngredients_def
        insertFormulation_def insertFormulationIngredients_def createSuccessResponse_def
        storedDb_def storedStarter_def ingredientRow_def Let_def corn_def soy_def js_div_def)

lemma sample_cost_shares:
  "map (\<lambda>r. (fi_ingredientCost r, fi_costPercentage r)) (formulationIngredients (storedDb ''draft''))
     = [(60, Num 60), (60, Num 60)]"
  by code_simp

text \<open>
  Scenario C: the toggle writes the status and the time of the update and nothing else; an
  update of the activated sample is refused, and passes once the sample is a draft again.
\<close>

lemma toggleFormulationStatus_writes_status:
  assumes "formulations d i = Some f"
  shows "snd (toggleFormulationStatus (Uuid i) activate now d)
           = d\<lparr>formulations := (formulations d)
                 (i \<mapsto> f\<lparr>f_status := (if activate then ''active'' else ''draft''),
                         f_updatedAt := now\<rparr>)\<rparr>"
  using assms by (simp add: toggleFormulationStatus_def idSchema_parse_def Let_def)

lemma toggle_then_update:
  "\<not> is_success (fst (updateFormulation (Uuid 7) (noData\<lparr>d_name := Some ''Renamed''\<rparr>) 2
        (snd (toggleFormulationStatus (Uuid 7) True 1 (storedDb ''draft'')))))"
  "is_success (fst (updateFormulation (Uuid 7) (noData\<lparr>d_name := Some ''Renamed''\<rparr>) 3
        (snd (toggleFormulationStatus (Uuid 7) False 2
           (snd (toggleFormulationStatus (Uuid 7) True 1 (storedDb ''draft'')))))))"
  by code_simp+

subsection \<open>The percentage check\<close>

text \<open>
  Claim C1. A mix whose percentages are more than 0.1 away from 100 is to be rejected with
  the error \<^verbatim>\<open>Invalid ingredient percentages\<close> carrying the sum to one decimal, and nothing of
  the call is to be stored. Nothing is stored on either path
  (\<open>createFormulation_rejects_mix\<close>, \<open>updateFormulation_rejects_mix\<close>), and an accepted mix is
  within the tolerance (\<open>accepted_mix_within_tolerance\<close>). The error differs: create answers
  with the sum, but update throws its message inside the transaction, and the \<^verbatim>\<open>catch\<close> hands
  every thrown value to \<^verbatim>\<open>handleDatabaseError\<close>, which answers \<^verbatim>\<open>Database operation failed\<close>
  for a value without a database code. On the mix 50 + 49 the update of a draft answers with
  the generic failure, the create with the sum 99.0.
\<close>

theorem update_loses_the_mix_error:
  "fst (updateFormulation (Uuid 7) (noData\<lparr>d_ingredients := Some [entry 1 50 50, entry 2 49 49]\<rparr>)
          1 (storedDb ''draft''))
     = Failure ''Database operation failed''
         (Some (Text ''An unexpected error occurred. Please try again.''))
   \<and> fst (createFormulation 8 1 (starter 100 [entry 1 50 50, entry 2 49 49]) (storedDb ''draft''))
     = Failure ''Invalid ingredient percentages'' (Some (CurrentSum 99))"
  by code_simp

subsection \<open>Cost shares\<close>


subsection \<open>Row numbering\<close>

text \<open>
  Claim C3. The row made for the entry at position \<open>i\<close> of the list the caller supplied is to
  have \<^verbatim>\<open>sequenceOrder\<close> and \<^verbatim>\<open>displayOrder\<close> equal to \<open>i\<close>. Update does so
  (\<open>updateFormulation_numbers_rows_by_position\<close>). Create sorts the array in place for the
  summary before it maps over it, so its rows are numbered by rank in descending percentage
  (\<open>createFormulation_numbers_rows_by_rank\<close>): for the list corn 40, soybean 60 create numbers
  soybean 0 and corn 1, update numbers corn 0 and soybean 1.
\<close>

theorem create_numbers_rows_after_sorting:
  "map (\<lambda>r. (fi_ingredientId r, fi_sequenceOrder r, fi_displayOrder r))
     (formulationIngredients
        (snd (createFormulation 7 0 (starter 100 [entry 1 40 40, entry 2 60 60]) emptyDb)))
     = [(2, 0, 0), (1, 1, 1)]
   \<and> map (\<lambda>r. (fi_ingredientId r, fi_sequenceOrder r, fi_displayOrder r))
       (ingredientsOf 7
          (snd (updateFormulation (Uuid 7)
                  (noData\<lparr>d_ingredients := Some [entry 1 40 40, entry 2 60 60]\<rparr>) 1 (storedDb ''draft''))))
     = [(1, 0, 0), (2, 1, 1)]"
  by code_simp

subsection \<open>Atomicity\<close>

text \<open>
  Claim C4. A create or an update that fails, by validation or by an error inside the
  transaction, leaves the database as it was: after a failed create, reading the identifier
  the new formulation would have had (one that was not in use) answers
  \<^verbatim>\<open>Formulation not found\<close>; after a failed update the formulation and its rows are as before
  the call.
\<close>

theorem failed_call_leaves_no_trace:
  "(\<not> is_success (fst (createFormulation gid now data d)) \<longrightarrow>
      snd (createFormulation gid now data d) = d
      \<and> (formulations d gid = None \<longrightarrow>
           fst (getFormulationById (Uuid gid) (snd (createFormulation gid now data d)))
             = Failure ''Formulation not found'' None))
   \<and> (\<not> is_success (fst (updateFormulation anId payload time d)) \<longrightarrow>
        snd (updateFormulation anId payload time d) = d)"
  by (auto simp: createFormulation_failure updateFormulation_failure getFormulationById_def
        idSchema_parse_def createErrorResponse_def)

text \<open>
  A create that fails after the formulation row is in (the second entry names no ingredient),
  and an update that fails after the metadata is written (the mix sums to 99).
\<close>

theorem failed_call_leaves_no_trace_witness:
  "\<not> is_success (fst (createFormulation 7 0 (starter 100 [entry 1 60 60, entry 9 40 40]) emptyDb))
   \<and> formulations emptyDb 7 = None
   \<and> snd (createFormulation 7 0 (starter 100 [entry 1 60 60, entry 9 40 40]) emptyDb) = emptyDb
   \<and> fst (getFormulationById (Uuid 7)
            (snd (createFormulation 7 0 (starter 100 [entry 1 60 60, entry 9 40 40]) emptyDb)))
        = Failure ''Formulation not found'' None
   \<and> \<not> is_success (fst (updateFormulation (Uuid 7)
            (noData\<lparr>d_name := Some ''Renamed'', d_ingredients := Some [entry 1 50 50, entry 2 49 49]\<rparr>)
            1 (storedDb ''draft'')))
   \<and> snd (updateFormulation (Uuid 7)
            (noData\<lparr>d_name := Some ''Renamed'', d_ingredients := Some [entry 1 50 50, entry 2 49 49]\<rparr>)
            1 (storedDb ''draft'')) = storedDb ''draft''"
proof -
  have c: "\<not> is_success (fst (createFormulation 7 0 (starter 100 [entry 1 60 60, entry 9 40 40]) emptyDb))"
    by code_simp
  have n: "formulations emptyDb 7 = None"
    by (simp add: emptyDb_def)
  have u: "\<not> is_success (fst (updateFormulation (Uuid 7)
            (noData\<lparr>d_name := Some ''Renamed'', d_ingredients := Some [entry 1 50 50, entry 2 49 49]\<rparr>)
            1 (storedDb ''draft'')))"
    by code_simp
  from failed_call_leaves_no_trace [where gid = 7 and now = 0
      and data = "starter 100 [entry 1 60 60, entry 9 40 40]" and d = emptyDb] c n
  have "snd (createFormulation 7 0 (starter 100 [entry 1 60 60, entry 9 40 40]) emptyDb) = emptyDb
        \<and> fst (getFormulationById (Uuid 7)
                 (snd (createFormulation 7 0 (starter 100 [entry 1 60 60, entry 9 40 40]) emptyDb)))
            = Failure ''Formulation not found'' None"
    by blast
  moreover
  from failed_call_leaves_no_trace [where anId = "Uuid 7" and time = 1 and d = "storedDb ''draft''"
      and payload = "noData\<lparr>d_name := Some ''Renamed'',
                              d_ingredients := Some [entry 1 50 50, entry 2 49 49]\<rparr>"] u
  have "snd (updateFormulation (Uuid 7)
            (noData\<lparr>d_name := Some ''Renamed'', d_ingredients := Some [entry 1 50 50, entry 2 49 49]\<rparr>)
            1 (storedDb ''draft'')) = storedDb ''draft''"
    by blast
  ultimately show ?thesis using c n u by blast
qed

subsection \<open>Active formulations\<close>

text \<open>
  Claim C5 says that an update of an active formulation always fails with the error of the
  state check. The payload is validated before the formulation is looked up: an update of the
  active sample with an empty name answers \<^verbatim>\<open>Validation failed\<close> for \<^verbatim>\<open>name\<close>.
\<close>

theorem update_of_active_reports_validation_first:
  "map_option f_status (formulations (storedDb ''active'') 7) = Some ''active''
   \<and> fst (updateFormulation (Uuid 7) (noData\<lparr>d_name := Some []\<rparr>) 1 (storedDb ''active''))
       = Invalid [''name'']"
  by code_simp

text \<open>
  Claim C5, amended. For a formulation whose status is \<^verbatim>\<open>active\<close>: an update fails and changes
  nothing, with \<^verbatim>\<open>Cannot edit active formulation\<close> when the payload passes the schema and
  with \<^verbatim>\<open>Validation failed\<close> otherwise; a delete fails with
  \<^verbatim>\<open>Cannot delete active formulation\<close> and changes nothing; and no create, update, delete or
  duplicate, of this or of any other formulation, changes the formulation or its ingredient
  rows. The status toggle is the one action left that writes to it.
\<close>

theorem active_formulation_is_immutable:
  assumes "formulations d i = Some f" and "f_status f = ''active''"
  shows "updateFormulation (Uuid i) data now d
           = (if schema_issues False data = []
              then Failure ''Cannot edit active formulation''
                     (Some (Text ''Deactivate the formulation first before making changes''))
              else Invalid (schema_issues False data), d)
       \<and> deleteFormulation (Uuid i) d
           = (Failure ''Cannot delete active formulation''
                (Some (Text ''Deactivate the formulation first before deleting'')), d)
       \<and> formulations (perform c d) i = Some f
       \<and> ingredientsOf i (perform c d) = ingredientsOf i d"
proof (intro conjI)
  show "updateFormulation (Uuid i) data now d
           = (if schema_issues False data = []
              then Failure ''Cannot edit active formulation''
                     (Some (Text ''Deactivate the formulation first before making changes''))
              else Invalid (schema_issues False data), d)"
    using assms
    by (simp add: updateFormulation_def idSchema_parse_def validateInput_def createErrorResponse_def)
  show "deleteFormulation (Uuid i) d
           = (Failure ''Cannot delete active formulation''
                (Some (Text ''Deactivate the formulation first before deleting'')), d)"
    using assms by (simp add: deleteFormulation_def idSchema_parse_def createErrorResponse_def)
  show "formulations (perform c d) i = Some f"
    using assms
    by (cases c) (simp_all add: createFormulation_frame updateFormulation_frame
        deleteFormulation_frame duplicateFormulation_fails)
  show "ingredientsOf i (perform c d) = ingredientsOf i d"
    using assms
    by (cases c) (simp_all add: createFormulation_frame updateFormulation_frame
        deleteFormulation_frame duplicateFormulation_fails)
qed

text \<open>The active sample, a valid rename, and a delete.\<close>

theorem active_formulation_is_immutable_witness:
  "formulations (storedDb ''active'') 7 = Some (storedStarter ''active'')
   \<and> f_status (storedStarter ''active'') = ''active''
   \<and> updateFormulation (Uuid 7) (noData\<lparr>d_name := Some ''Renamed''\<rparr>) 1 (storedDb ''active'')
       = (Failure ''Cannot edit active formulation''
            (Some (Text ''Deactivate the formulation first before making changes'')),
          storedDb ''active'')
   \<and> deleteFormulation (Uuid 7) (storedDb ''active'')
       = (Failure ''Cannot delete active formulation''
            (Some (Text ''Deactivate the formulation first before deleting'')), storedDb ''active'')
   \<and> formulations (perform (Delete (Uuid 7)) (storedDb ''active'')) 7 = Some (storedStarter ''active'')
   \<and> ingredientsOf 7 (perform (Delete (Uuid 7)) (storedDb ''active''))
       = ingredientsOf 7 (storedDb ''active'')"
proof -
  have f: "formulations (storedDb ''active'') 7 = Some (storedStarter ''active'')"
    by (simp add: storedDb_def)
  have a: "f_status (storedStarter ''active'') = ''active''"
    by (simp add: storedStarter_def)
  have v: "schema_issues False (noData\<lparr>d_name := Some ''Renamed''\<rparr>) = []"
    by code_simp
  from active_formulation_is_immutable [OF f a, where data = "noData\<lparr>d_name := Some ''Renamed''\<rparr>"
      and now = 1 and c = "Delete (Uuid 7)"] f a v
  show ?thesis by simp
qed

subsection \<open>The main-ingredients summary\<close>



subsection \<open>Cost contributions\<close>




subsection \<open>The denominator of update\<close>



subsection \<open>Duplication\<close>

text \<open>
  Claim C9. Duplicating an existing formulation is to give a new formulation with its own
  identifier, status \<^verbatim>\<open>draft\<close> and the ingredient entries of the source. The object that
  \<^verbatim>\<open>duplicateFormulation\<close> hands to \<^verbatim>\<open>createFormulation\<close> has no \<^verbatim>\<open>ingredientCount\<close>, no
  \<^verbatim>\<open>nutritionalAnalysis\<close> and no \<^verbatim>\<open>meetsRequirements\<close>, which the insert schema requires
  (\<open>newFormulationData_misses_required_keys\<close>). So no duplicate succeeds, whatever the source,
  and none changes the database.
\<close>

theorem duplicateFormulation_never_succeeds:
  "\<not> is_success (fst (duplicateFormulation anId newName gid now d))
   \<and> snd (duplicateFormulation anId newName gid now d) = d"
  by (auto simp: duplicateFormulation_def createFormulation_def validateInput_def
        newFormulationData_misses_required_keys handleDatabaseError_def createErrorResponse_def
        split: sum.splits action_result.splits exn.splits)

subsection \<open>The reader\<close>

text \<open>
  Claim C10 says that reading an identifier that names no formulation fails with
  \<^verbatim>\<open>Formulation not found\<close>. A string that is not a UUID names none, and \<^verbatim>\<open>idSchema.parse\<close>
  throws on it: the answer is \<^verbatim>\<open>Database operation failed\<close>.
\<close>

theorem malformed_id_is_not_reported_as_not_found:
  "fst (getFormulationById NotUuid (storedDb ''draft''))
     = Failure ''Database operation failed''
         (Some (Text ''An unexpected error occurred. Please try again.''))
   \<and> fst (getFormulationById NotUuid (storedDb ''draft'')) \<noteq> Failure ''Formulation not found'' None"
  by code_simp

text \<open>
  Claim C10, amended. \<^verbatim>\<open>getFormulationById\<close> changes nothing. For the UUID of a stored
  formulation it answers with that formulation and with exactly its ingredient rows, in
  ascending \<^verbatim>\<open>displayOrder\<close>, each row with the name, category, unit cost and unit of the
  ingredient it references. For a UUID that names no formulation it fails with
  \<^verbatim>\<open>Formulation not found\<close>, for a string that is not a UUID with
  \<^verbatim>\<open>Database operation failed\<close>.
\<close>

theorem getFormulationById_joins_in_display_order:
  "snd (getFormulationById anId d) = d
   \<and> fst (getFormulationById NotUuid d)
       = Failure ''Database operation failed''
           (Some (Text ''An unexpected error occurred. Please try again.''))
   \<and> (formulations d i = None \<longrightarrow>
        fst (getFormulationById (Uuid i) d) = Failure ''Formulation not found'' None)
   \<and> (\<forall>f. formulations d i = Some f \<longrightarrow>
        (\<exists>v. fst (getFormulationById (Uuid i) d) = Success v None
           \<and> v_id v = i \<and> v_formulation v = f
           \<and> sorted (map (\<lambda>x. fi_displayOrder (iv_row x)) (v_ingredients v))
           \<and> mset (map iv_row (v_ingredients v)) = mset (ingredientsOf i d)
           \<and> (\<forall>x \<in> set (v_ingredients v). \<forall>ing.
                 ingredients d (fi_ingredientId (iv_row x)) = Some ing \<longrightarrow>
                   iv_ingredientName x = Some (i_name ing)
                   \<and> iv_ingredientCategory x = i_category ing
                   \<and> iv_ingredientCostPerUnit x = Some (i_costPerUnit ing)
                   \<and> iv_ingredientUnit x = Some (i_unit ing))))"
proof (intro conjI allI impI)
  show "snd (getFormulationById anId d) = d" by (rule getFormulationById_reads_only)
  show "fst (getFormulationById NotUuid d)
       = Failure ''Database operation failed''
           (Some (Text ''An unexpected error occurred. Please try again.''))"
    by (simp add: getFormulationById_def idSchema_parse_def handleDatabaseError_def)
next
  assume "formulations d i = None"
  then show "fst (getFormulationById (Uuid i) d) = Failure ''Formulation not found'' None"
    by (simp add: getFormulationById_def idSchema_parse_def createErrorResponse_def)
next
  fix f assume f: "formulations d i = Some f"
  let ?rows = "sort_key fi_displayOrder (ingredientsOf i d)"
  have iv: "map iv_row (map (joinIngredient d) ?rows) = ?rows"
    by (simp add: joinIngredient_def comp_def)
  have "sorted (map fi_displayOrder ?rows)" by (rule sorted_sort_key)
  then have srt: "sorted (map (\<lambda>x. fi_displayOrder (iv_row x)) (map (joinIngredient d) ?rows))"
    by (simp add: joinIngredient_def comp_def)
  have ms: "mset (map iv_row (map (joinIngredient d) ?rows)) = mset (ingredientsOf i d)"
    by (simp only: iv mset_sort)
  have ann: "\<forall>x \<in> set (map (joinIngredient d) ?rows). \<forall>ing.
                 ingredients d (fi_ingredientId (iv_row x)) = Some ing \<longrightarrow>
                   iv_ingredientName x = Some (i_name ing)
                   \<and> iv_ingredientCategory x = i_category ing
                   \<and> iv_ingredientCostPerUnit x = Some (i_costPerUnit ing)
                   \<and> iv_ingredientUnit x = Some (i_unit ing)"
    by (auto simp: joinIngredient_def)
  let ?v = "\<lparr> v_id = i, v_formulation = f,
               v_animalName = map_option a_displayName (animals d (f_animalId f)),
               v_animalSpecies = map_option a_species (animals d (f_animalId f)),
               v_stageName = productionStages d (f_productionStageId f),
               v_ingredients = map (joinIngredient d) ?rows \<rparr>"
  have sel: "v_ingredients ?v = map (joinIngredient d) ?rows" by simp
  show "\<exists>v. fst (getFormulationById (Uuid i) d) = Success v None
           \<and> v_id v = i \<and> v_formulation v = f
           \<and> sorted (map (\<lambda>x. fi_displayOrder (iv_row x)) (v_ingredients v))
           \<and> mset (map iv_row (v_ingredients v)) = mset (ingredientsOf i d)
           \<and> (\<forall>x \<in> set (v_ingredients v). \<forall>ing.
                 ingredients d (fi_ingredientId (iv_row x)) = Some ing \<longrightarrow>
                   iv_ingredientName x = Some (i_name ing)
                   \<and> iv_ingredientCategory x = i_category ing
                   \<and> iv_ingredientCostPerUnit x = Some (i_costPerUnit ing)
                   \<and> iv_ingredientUnit x = Some (i_unit ing))"
  proof (rule exI [of _ ?v], intro conjI)
    show "fst (getFormulationById (Uuid i) d) = Success ?v None"
      using f by (simp add: getFormulationById_def idSchema_parse_def createSuccessResponse_def)
    show "v_id ?v = i" by simp
    show "v_formulation ?v = f" by simp
    show "sorted (map (\<lambda>x. fi_displayOrder (iv_row x)) (v_ingredients ?v))"
      using srt by (simp only: sel)
    show "mset (map iv_row (v_ingredients ?v)) = mset (ingredientsOf i d)"
      using ms by (simp only: sel)
    show "\<forall>x \<in> set (v_ingredients ?v). \<forall>ing.
                 ingredients d (fi_ingredientId (iv_row x)) = Some ing \<longrightarrow>
                   iv_ingredientName x = Some (i_name ing)
                   \<and> iv_ingredientCategory x = i_category ing
                   \<and> iv_ingredientCostPerUnit x = Some (i_costPerUnit ing)
                   \<and> iv_ingredientUnit x = Some (i_unit ing)"
      using ann by (simp only: sel)
  qed
qed

text \<open>The draft sample under its identifier 7, and the unused identifier 8.\<close>

theorem getFormulationById_joins_in_display_order_witness:
  "formulations (storedDb ''draft'') 8 = None
   \<and> fst (getFormulationById (Uuid 8) (storedDb ''draft'')) = Failure ''Formulation not found'' None
   \<and> formulations (storedDb ''draft'') 7 = Some (storedStarter ''draft'')
   \<and> (\<exists>v. fst (getFormulationById (Uuid 7) (storedDb ''draft'')) = Success v None
         \<and> v_id v = 7 \<and> v_formulation v = storedStarter ''draft''
         \<and> sorted (map (\<lambda>x. fi_displayOrder (iv_row x)) (v_ingredients v))
         \<and> mset (map iv_row (v_ingredients v)) = mset (ingredientsOf 7 (storedDb ''draft'')))"
proof -
  have n: "formulations (storedDb ''draft'') 8 = None"
    by (simp add: storedDb_def)
  have f: "formulations (storedDb ''draft'') 7 = Some (storedStarter ''draft'')"
    by (simp add: storedDb_def)
  from getFormulationById_joins_in_display_order [where d = "storedDb ''draft''" and i = 8] n
  have 1: "fst (getFormulationById (Uuid 8) (storedDb ''draft'')) = Failure ''Formulation not found'' None"
    by blast
  from getFormulationById_joins_in_display_order [where d = "storedDb ''draft''" and i = 7] f
  have 2: "\<exists>v. fst (getFormulationById (Uuid 7) (storedDb ''draft'')) = Success v None
         \<and> v_id v = 7 \<and> v_formulation v = storedStarter ''draft''
         \<and> sorted (map (\<lambda>x. fi_displayOrder (iv_row x)) (v_ingredients v))
         \<and> mset (map iv_row (v_ingredients v)) = mset (ingredientsOf 7 (storedDb ''draft''))"
    by blast
  from n f 1 2 show ?thesis by blast
qed

end
